theory Spec2Isabelle
  imports Complex_Main
begin

section \<open>Values, columns and data frames\<close>

text \<open>
  The application (\<^verbatim>\<open>src/app.py\<close>) keeps two process-wide variables,
  \<^verbatim>\<open>uploaded_data\<close> (a pandas data frame or \<^verbatim>\<open>None\<close>) and \<^verbatim>\<open>model\<close>
  (a scikit-learn pipeline or \<^verbatim>\<open>None\<close>), and five callbacks that read and write them.
  The callbacks are embedded as functions over an explicit state. What the callbacks
  delegate to pandas, scikit-learn, XGBoost, numpy, base64 and plotly is kept apart:
  the structural operations on frames (selecting columns by name or dtype, expanding
  dummies, assigning a column) are written out, and the numeric routines are the fields
  of a record \<open>lib\<close> that every callback takes as its first argument.

  Floating point numbers are idealised as \<open>real\<close>; the callbacks only move them around.
\<close>

datatype dtype = Int64 | Float64 | Bool | Object | Category | Datetime64

datatype cell = IntV int | FloatV real | StrV string | BoolV bool | NaN

record column =
  col_name :: string
  col_dtype :: dtype
  col_cells :: "cell list"

record dataframe =
  nrows :: nat
  columns :: "column list"

text \<open>Python exceptions, as values; \<open>str_exn\<close> is Python's \<^verbatim>\<open>str(e)\<close>.\<close>

datatype exn =
    KeyError string
  | ValueError string
  | AttributeError string
  | IndexError string
  | NotFittedError string
  | LibraryError string

definition apostrophe :: char where
  "apostrophe = CHR 0x27"

fun str_exn :: "exn \<Rightarrow> string" where
  "str_exn (KeyError k) = apostrophe # k @ [apostrophe]"
| "str_exn (ValueError m) = m"
| "str_exn (AttributeError m) = m"
| "str_exn (IndexError m) = m"
| "str_exn (NotFittedError m) = m"
| "str_exn (LibraryError m) = m"

text \<open>Sequencing of steps inside a \<^verbatim>\<open>try\<close> block: the first exception wins.\<close>

definition and_then :: "exn + 'a \<Rightarrow> ('a \<Rightarrow> exn + 'b) \<Rightarrow> exn + 'b" where
  "and_then m f = (case m of Inl e \<Rightarrow> Inl e | Inr x \<Rightarrow> f x)"

text \<open>Python truthiness of an optional string and of an optional list.\<close>

fun truthy :: "'a list option \<Rightarrow> bool" where
  "truthy None = False"
| "truthy (Some xs) = (xs \<noteq> [])"

text \<open>Python's \<^verbatim>\<open>str(n)\<close> for a non-negative integer.\<close>

definition digit_char :: "nat \<Rightarrow> char" where
  "digit_char d = char_of (48 + d)"

fun str_nat :: "nat \<Rightarrow> string" where
  "str_nat n = (if n < 10 then [digit_char n] else str_nat (n div 10) @ [digit_char (n mod 10)])"

declare str_nat.simps [simp del]

text \<open>Python's \<^verbatim>\<open>s.split(',')\<close>.\<close>

fun split_comma :: "string \<Rightarrow> string list" where
  "split_comma [] = [[]]"
| "split_comma (c # cs) =
     (if c = CHR '','' then [] # split_comma cs
      else (case split_comma cs of
              [] \<Rightarrow> [[c]]
            | t # ts \<Rightarrow> (c # t) # ts))"

subsection \<open>pandas: selection by dtype and by name\<close>

text \<open>
  \<^verbatim>\<open>select_dtypes(include=...)\<close> keeps, in frame order, the columns whose dtype matches
  one of the selectors. \<^verbatim>\<open>np.number\<close> and \<^verbatim>\<open>'number'\<close> match the integer and float
  dtypes; booleans, datetimes, objects and categoricals are not numbers.
\<close>

datatype selector = Number | ObjectSel | CategorySel

fun matches :: "selector \<Rightarrow> dtype \<Rightarrow> bool" where
  "matches Number d = (d = Int64 \<or> d = Float64)"
| "matches ObjectSel d = (d = Object)"
| "matches CategorySel d = (d = Category)"

definition included :: "selector list \<Rightarrow> dtype \<Rightarrow> bool" where
  "included sels d = list_ex (\<lambda>s. matches s d) sels"

definition select_dtypes :: "selector list \<Rightarrow> dataframe \<Rightarrow> dataframe" where
  "select_dtypes sels df =
     df\<lparr>columns := filter (\<lambda>c. included sels (col_dtype c)) (columns df)\<rparr>"

definition column_names :: "dataframe \<Rightarrow> string list" where
  "column_names df = map col_name (columns df)"

text \<open>
  \<^verbatim>\<open>df[names]\<close> with a list of names: the columns in the order of the list, a
  \<^verbatim>\<open>KeyError\<close> when a name is no column of the frame.
\<close>

definition getitem_list :: "dataframe \<Rightarrow> string list \<Rightarrow> exn + dataframe" where
  "getitem_list df names =
     (case find (\<lambda>n. n \<notin> set (column_names df)) names of
        Some n \<Rightarrow> Inl (KeyError n)
      | None \<Rightarrow>
          Inr (df\<lparr>columns :=
                 concat (map (\<lambda>n. filter (\<lambda>c. col_name c = n) (columns df)) names)\<rparr>))"

text \<open>\<^verbatim>\<open>df[name]\<close> with one name: that column, or a \<^verbatim>\<open>KeyError\<close>.\<close>

definition getitem :: "dataframe \<Rightarrow> string \<Rightarrow> exn + column" where
  "getitem df n =
     (case find (\<lambda>c. col_name c = n) (columns df) of
        None \<Rightarrow> Inl (KeyError n)
      | Some c \<Rightarrow> Inr c)"

text \<open>Positional row selection; a short column reads as missing values.\<close>

definition cell_at :: "cell list \<Rightarrow> nat \<Rightarrow> cell" where
  "cell_at cs i = (if i < length cs then cs ! i else NaN)"

definition take_cells :: "nat list \<Rightarrow> cell list \<Rightarrow> cell list" where
  "take_cells idx cs = map (cell_at cs) idx"

definition take_rows :: "nat list \<Rightarrow> dataframe \<Rightarrow> dataframe" where
  "take_rows idx df =
     \<lparr>nrows = length idx,
      columns = map (\<lambda>c. c\<lparr>col_cells := take_cells idx (col_cells c)\<rparr>) (columns df)\<rparr>"

section \<open>The fitted pipeline\<close>

text \<open>
  The regressor's hyperparameters, as \<^verbatim>\<open>train_model\<close> writes them in the constructor
  call of \<^verbatim>\<open>XGBRegressor\<close>.
\<close>

record hyperparameters =
  n_estimators :: nat
  max_depth :: nat
  learning_rate :: real
  subsample :: real
  random_state :: "nat option"

text \<open>
  A fitted column transformer: the names of the frame it was fitted on
  (\<^verbatim>\<open>feature_names_in_\<close>), the two column lists it was constructed with, per numeric
  column the fitted statistics of imputer and scaler, and per categorical column the
  imputer's fill value and the encoder's categories.
\<close>

record preprocessor =
  feature_names_in :: "string list"
  numeric_features :: "string list"
  categorical_features :: "string list"
  num_fitted :: "real list list"
  cat_fitted :: "(cell \<times> cell list) list"

type_synonym regressor = "real list \<Rightarrow> real"

text \<open>
  The value of the global \<^verbatim>\<open>model\<close>: a pipeline that was constructed but not
  fitted, one whose first step is fitted while the regressor's fit raised, or a fitted one.
\<close>

datatype pipeline =
    Constructed "string list" "string list"
  | Preprocessor_fitted preprocessor
  | Fitted preprocessor regressor

record state =
  uploaded_data :: "dataframe option"
  model :: "pipeline option"

section \<open>The library routines\<close>

text \<open>
  The routines the callbacks call and whose results are numeric or come from outside the
  repository. \<open>rng\<close> arguments stand for the ambient random state of the process, which
  a routine may consult when it is given no seed.
\<close>

record lib =
  b64decode :: "string \<Rightarrow> exn + string"
  utf8_decode :: "string \<Rightarrow> exn + string"
  read_csv :: "string \<Rightarrow> exn + dataframe"
  py_float :: "string \<Rightarrow> real option"
  train_test_split :: "real \<Rightarrow> nat option \<Rightarrow> nat \<Rightarrow> nat \<Rightarrow> exn + (nat list \<times> nat list)"
  num_fit :: "cell list \<Rightarrow> real list"
  num_transform :: "real list \<Rightarrow> cell \<Rightarrow> real"
  most_frequent :: "cell list \<Rightarrow> cell"
  unique_values :: "cell list \<Rightarrow> cell list"
  xgb_fit :: "hyperparameters \<Rightarrow> nat \<Rightarrow> real list list \<Rightarrow> cell list \<Rightarrow> exn + regressor"
  r2_score :: "cell list \<Rightarrow> real list \<Rightarrow> exn + real"
  format_4f :: "real \<Rightarrow> string"
  str_float :: "real \<Rightarrow> string"
  group_mean :: "cell list \<Rightarrow> cell list \<Rightarrow> exn + (cell \<times> real) list"
  pearson :: "cell list \<Rightarrow> cell list \<Rightarrow> real"

section \<open>Ingest: \<^verbatim>\<open>handle_upload\<close>\<close>

text \<open>
  The body of the \<^verbatim>\<open>try\<close> block up to the assignment: the contents are split at
  commas and unpacked into exactly two parts, the second is decoded and parsed.
\<close>

definition read_upload :: "lib \<Rightarrow> string \<Rightarrow> exn + dataframe" where
  "read_upload L contents =
     (case split_comma contents of
        [content_type, content_string] \<Rightarrow>
          and_then (b64decode L content_string) (\<lambda>decoded.
          and_then (utf8_decode L decoded) (\<lambda>text.
          read_csv L text))
      | [_] \<Rightarrow> Inl (ValueError ''not enough values to unpack (expected 2, got 1)'')
      | _ \<Rightarrow> Inl (ValueError ''too many values to unpack (expected 2)''))"

fun str_opt :: "string option \<Rightarrow> string" where
  "str_opt None = ''None''"
| "str_opt (Some s) = s"

definition handle_upload ::
  "lib \<Rightarrow> state \<Rightarrow> string option \<Rightarrow> string option \<Rightarrow> string \<times> state" where
  "handle_upload L st contents filename =
     (case contents of
        None \<Rightarrow> (''No file uploaded.'', st)
      | Some c \<Rightarrow>
          if c = [] then (''No file uploaded.'', st)
          else (case read_upload L c of
                  Inl e \<Rightarrow> (''Error reading file: '' @ str_exn e, st)
                | Inr df \<Rightarrow>
                    (''Uploaded file: '' @ str_opt filename @ '' (Rows: '' @ str_nat (nrows df)
                       @ '', Columns: '' @ str_nat (length (columns df)) @ '')'',
                     st\<lparr>uploaded_data := Some df\<rparr>)))"

section \<open>Schema: \<^verbatim>\<open>update_target_dropdown\<close> and \<^verbatim>\<open>get_options\<close>\<close>

text \<open>A dropdown or checklist option is a label with a value; both are the column name.\<close>

definition option_of :: "string \<Rightarrow> string \<times> string" where
  "option_of col = (col, col)"

definition update_target_dropdown :: "state \<Rightarrow> (string \<times> string) list" where
  "update_target_dropdown st =
     (case uploaded_data st of
        Some df \<Rightarrow> map option_of (column_names (select_dtypes [Number] df))
      | None \<Rightarrow> [])"

definition get_options :: "state \<Rightarrow> (string \<times> string) list" where
  "get_options st =
     (case uploaded_data st of
        Some df \<Rightarrow>
          map option_of (column_names (select_dtypes [Number] df))
          @ map option_of (column_names (select_dtypes [ObjectSel, CategorySel] df))
      | None \<Rightarrow> [])"

section \<open>Report: \<^verbatim>\<open>update_barcharts\<close>\<close>

datatype figure = Empty_figure | Bar_chart string "(cell \<times> real) list"

text \<open>
  \<^verbatim>\<open>uploaded_data.groupby(categorical_var)[target].mean()\<close>: both names must be columns.
\<close>

definition category_chart :: "lib \<Rightarrow> dataframe \<Rightarrow> string \<Rightarrow> string \<Rightarrow> exn + figure" where
  "category_chart L df categorical_var target =
     and_then (getitem df categorical_var) (\<lambda>k.
     and_then (getitem df target) (\<lambda>t.
     and_then (group_mean L (col_cells k) (col_cells t)) (\<lambda>avg_values.
     Inr (Bar_chart ''Average Target by Category'' avg_values))))"

text \<open>
  \<^verbatim>\<open>numeric_data.corr()[target].drop(target).abs().sort_values(ascending=False)\<close>:
  the target must be a column of the numeric part.
\<close>

definition correlation_chart :: "lib \<Rightarrow> dataframe \<Rightarrow> string \<Rightarrow> exn + figure" where
  "correlation_chart L numeric_data target =
     and_then (getitem numeric_data target) (\<lambda>t.
     Inr (Bar_chart ''Correlation Strength''
            (sort_key (\<lambda>p. - snd p)
               (map (\<lambda>c. (StrV (col_name c), \<bar>pearson L (col_cells c) (col_cells t)\<bar>))
                    (filter (\<lambda>c. col_name c \<noteq> target) (columns numeric_data))))))"

definition empty_frame :: "dataframe \<Rightarrow> bool" where
  "empty_frame df = (nrows df = 0 \<or> columns df = [])"

text \<open>
  The callback has no \<^verbatim>\<open>try\<close> block: \<open>Inl\<close> is an exception that leaves the callback.
\<close>

definition update_barcharts ::
  "lib \<Rightarrow> state \<Rightarrow> string option \<Rightarrow> string option
     \<Rightarrow> exn + ((string \<times> string) list \<times> figure \<times> figure)" where
  "update_barcharts L st target categorical_var =
     (case (uploaded_data st, target) of
        (None, _) \<Rightarrow> Inr ([], Empty_figure, Empty_figure)
      | (Some df, None) \<Rightarrow> Inr ([], Empty_figure, Empty_figure)
      | (Some df, Some tgt) \<Rightarrow>
          (let numeric_data = select_dtypes [Number] df;
               categorical_options = map option_of (column_names (select_dtypes [ObjectSel] df))
           in and_then (case categorical_var of
                          None \<Rightarrow> Inr Empty_figure
                        | Some cv \<Rightarrow>
                            if cv = [] then Inr Empty_figure else category_chart L df cv tgt)
                (\<lambda>category_chart.
              and_then (if empty_frame numeric_data then Inr Empty_figure
                        else correlation_chart L numeric_data tgt)
                (\<lambda>corr_chart.
              Inr (categorical_options, category_chart, corr_chart)))))"

section \<open>Training: \<^verbatim>\<open>train_model\<close>\<close>

definition hyper :: hyperparameters where
  "hyper = \<lparr>n_estimators = 200, max_depth = 3, learning_rate = 3 / 10, subsample = 1,
            random_state = Some 42\<rparr>"

record prepared =
  X_train :: dataframe
  X_test :: dataframe
  y_train :: "cell list"
  y_test :: "cell list"
  numeric :: "string list"
  categorical :: "string list"

text \<open>
  Slicing, splitting and the two column lists. The split is asked for with
  \<^verbatim>\<open>test_size=0.2\<close> and \<^verbatim>\<open>random_state=42\<close>; it answers with row positions.
\<close>

definition prepare :: "lib \<Rightarrow> nat \<Rightarrow> dataframe \<Rightarrow> string \<Rightarrow> string list \<Rightarrow> exn + prepared" where
  "prepare L rng data target selected_features =
     and_then (getitem_list data selected_features) (\<lambda>X.
     and_then (getitem data target) (\<lambda>y.
     and_then (train_test_split L (2 / 10) (Some 42) rng (nrows X)) (\<lambda>(train, test).
     Inr \<lparr>X_train = take_rows train X, X_test = take_rows test X,
          y_train = take_cells train (col_cells y), y_test = take_cells test (col_cells y),
          numeric = column_names (select_dtypes [Number] X),
          categorical = column_names (select_dtypes [ObjectSel] X)\<rparr>)))"

subsection \<open>The column transformer\<close>

fun collect :: "(exn + 'a) list \<Rightarrow> exn + 'a list" where
  "collect [] = Inr []"
| "collect (m # ms) = and_then m (\<lambda>x. and_then (collect ms) (\<lambda>xs. Inr (x # xs)))"

definition lookup_cells :: "dataframe \<Rightarrow> string \<Rightarrow> exn + cell list" where
  "lookup_cells df n =
     (case find (\<lambda>c. col_name c = n) (columns df) of
        None \<Rightarrow> Inl (ValueError ''columns are missing'')
      | Some c \<Rightarrow> Inr (col_cells c))"

definition impute :: "cell \<Rightarrow> cell \<Rightarrow> cell" where
  "impute fill v = (if v = NaN then fill else v)"

text \<open>
  One-hot encoding with \<^verbatim>\<open>handle_unknown='ignore'\<close>: one indicator per fitted category;
  a value that is no fitted category sets none of them.
\<close>

definition onehot :: "cell list \<Rightarrow> cell \<Rightarrow> real list" where
  "onehot cats v = map (\<lambda>c. if c = v then 1 else 0) cats"

definition fit_preprocessor ::
  "lib \<Rightarrow> string list \<Rightarrow> string list \<Rightarrow> dataframe \<Rightarrow> exn + preprocessor" where
  "fit_preprocessor L nf cf X =
     and_then (collect (map (lookup_cells X) nf)) (\<lambda>ncols.
     and_then (collect (map (lookup_cells X) cf)) (\<lambda>ccols.
     Inr \<lparr>feature_names_in = column_names X,
          numeric_features = nf,
          categorical_features = cf,
          num_fitted = map (num_fit L) ncols,
          cat_fitted = map (\<lambda>cs. (most_frequent L cs,
                                   unique_values L (map (impute (most_frequent L cs)) cs))) ccols\<rparr>))"

definition encode_row ::
  "lib \<Rightarrow> preprocessor \<Rightarrow> cell list list \<Rightarrow> cell list list \<Rightarrow> nat \<Rightarrow> real list" where
  "encode_row L prep ncols ccols i =
     map2 (\<lambda>p cs. num_transform L p (cell_at cs i)) (num_fitted prep) ncols
     @ concat (map2 (\<lambda>(fill, cats) cs. onehot cats (impute fill (cell_at cs i)))
                 (cat_fitted prep) ccols)"

definition transform :: "lib \<Rightarrow> preprocessor \<Rightarrow> dataframe \<Rightarrow> exn + real list list" where
  "transform L prep df =
     and_then (collect (map (lookup_cells df) (numeric_features prep))) (\<lambda>ncols.
     and_then (collect (map (lookup_cells df) (categorical_features prep))) (\<lambda>ccols.
     Inr (map (encode_row L prep ncols ccols) [0..<nrows df])))"

text \<open>
  The transformer's output columns, in order: the numeric columns, then one column per
  fitted category of each categorical column (named here by the pair of both).
\<close>

definition output_columns :: "preprocessor \<Rightarrow> (string \<times> cell option) list" where
  "output_columns prep =
     map (\<lambda>n. (n, None)) (numeric_features prep)
     @ concat (map2 (\<lambda>n (fill, cats). map (\<lambda>c. (n, Some c)) cats)
                 (categorical_features prep) (cat_fitted prep))"

text \<open>
  The first step of \<^verbatim>\<open>model.fit\<close>: the transformer is fitted on the training rows and
  applied to them. \<open>feature_matrix\<close> is the matrix this step hands to the regressor.
\<close>

definition fit_transform :: "lib \<Rightarrow> prepared \<Rightarrow> exn + (preprocessor \<times> real list list)" where
  "fit_transform L p =
     and_then (fit_preprocessor L (numeric p) (categorical p) (X_train p)) (\<lambda>prep.
     and_then (transform L prep (X_train p)) (\<lambda>Xt.
     Inr (prep, Xt)))"


subsection \<open>Constructing, fitting and scoring\<close>

text \<open>
  The global \<^verbatim>\<open>model\<close> is assigned when the pipeline is constructed, before
  \<^verbatim>\<open>model.fit\<close> runs; the fit then works on that object.
\<close>

definition fit_and_score :: "lib \<Rightarrow> nat \<Rightarrow> prepared \<Rightarrow> state \<Rightarrow> (exn + real) \<times> state" where
  "fit_and_score L rng p st =
     (let st1 = st\<lparr>model := Some (Constructed (numeric p) (categorical p))\<rparr> in
      case fit_transform L p of
        Inl e \<Rightarrow> (Inl e, st1)
      | Inr (prep, Xt) \<Rightarrow>
          (let st2 = st\<lparr>model := Some (Preprocessor_fitted prep)\<rparr> in
           case xgb_fit L hyper rng Xt (y_train p) of
             Inl e \<Rightarrow> (Inl e, st2)
           | Inr reg \<Rightarrow>
               (and_then (transform L prep (X_test p)) (\<lambda>Xs.
                  r2_score L (y_test p) (map reg Xs)),
                st\<lparr>model := Some (Fitted prep reg)\<rparr>)))"

definition train_body ::
  "lib \<Rightarrow> nat \<Rightarrow> state \<Rightarrow> dataframe \<Rightarrow> string \<Rightarrow> string list \<Rightarrow> (exn + real) \<times> state" where
  "train_body L rng st data target selected_features =
     (case prepare L rng data target selected_features of
        Inl e \<Rightarrow> (Inl e, st)
      | Inr p \<Rightarrow> fit_and_score L rng p st)"

definition click_message :: string where
  "click_message = ''Click '' @ [apostrophe] @ ''Train Model'' @ [apostrophe] @ '' to start training.''"

definition no_data_message :: string where
  "no_data_message = ''Error: No data uploaded. Please upload a dataset.''"

definition no_target_message :: string where
  "no_target_message = ''Error: No target variable selected.''"

definition no_features_message :: string where
  "no_features_message = ''Error: No features selected for training.''"

definition train_model ::
  "lib \<Rightarrow> nat \<Rightarrow> state \<Rightarrow> nat option \<Rightarrow> string option \<Rightarrow> string list option
     \<Rightarrow> string \<times> state" where
  "train_model L rng st n_clicks target selected_features =
     (if n_clicks = None then (click_message, st)
      else case uploaded_data st of
        None \<Rightarrow> (no_data_message, st)
      | Some data \<Rightarrow>
          (case target of
             None \<Rightarrow> (no_target_message, st)
           | Some tgt \<Rightarrow>
               if tgt = [] then (no_target_message, st)
               else (case selected_features of
                       None \<Rightarrow> (no_features_message, st)
                     | Some feats \<Rightarrow>
                         if feats = [] then (no_features_message, st)
                         else (case train_body L rng st data tgt feats of
                                 (Inr r2, st') \<Rightarrow>
                                   (''Model trained successfully! R^2 score: '' @ format_4f L r2, st')
                               | (Inl e, st') \<Rightarrow>
                                   (''Error during training: '' @ str_exn e, st')))))"

section \<open>Prediction: \<^verbatim>\<open>make_prediction\<close>\<close>

text \<open>A token that parses as a float becomes that number, any other stays the string.\<close>

definition parse_token :: "lib \<Rightarrow> string \<Rightarrow> cell" where
  "parse_token L v = (case py_float L v of Some r \<Rightarrow> FloatV r | None \<Rightarrow> StrV v)"

fun cell_dtype :: "cell \<Rightarrow> dtype" where
  "cell_dtype (IntV i) = Int64"
| "cell_dtype (FloatV r) = Float64"
| "cell_dtype (StrV s) = Object"
| "cell_dtype (BoolV b) = Bool"
| "cell_dtype NaN = Float64"

text \<open>\<^verbatim>\<open>pd.DataFrame([processed_data], columns=selected_features)\<close>, lengths agreeing.\<close>

definition single_row :: "cell list \<Rightarrow> string list \<Rightarrow> dataframe" where
  "single_row processed_data selected_features =
     \<lparr>nrows = 1,
      columns = map2 (\<lambda>n v. \<lparr>col_name = n, col_dtype = cell_dtype v, col_cells = [v]\<rparr>)
                  selected_features processed_data\<rparr>"

text \<open>
  \<^verbatim>\<open>pd.get_dummies\<close>: the columns of object or categorical dtype are replaced by one
  boolean column per value, named \<^verbatim>\<open>column_value\<close>, after the columns left as they are.
  (pandas sorts the values of a column; a frame of one row has one value per column.)
\<close>

definition labels :: "cell list \<Rightarrow> string list" where
  "labels cs = concat (map (\<lambda>x. case x of StrV s \<Rightarrow> [s] | _ \<Rightarrow> []) cs)"

definition dummy_columns :: "column \<Rightarrow> column list" where
  "dummy_columns c =
     map (\<lambda>v. \<lparr>col_name = col_name c @ ''_'' @ v, col_dtype = Bool,
                col_cells = map (\<lambda>x. BoolV (x = StrV v)) (col_cells c)\<rparr>)
         (remdups (labels (col_cells c)))"

definition encoded :: "column \<Rightarrow> bool" where
  "encoded c = (col_dtype c = Object \<or> col_dtype c = Category)"

definition get_dummies :: "dataframe \<Rightarrow> dataframe" where
  "get_dummies df =
     df\<lparr>columns := filter (\<lambda>c. \<not> encoded c) (columns df)
                    @ concat (map dummy_columns (filter encoded (columns df)))\<rparr>"

text \<open>
  \<^verbatim>\<open>model.feature_names_in_\<close>: a pipeline hands out the names its first step saw
  when it was fitted; \<^verbatim>\<open>None\<close> and an unfitted pipeline have no such attribute.
\<close>

fun model_feature_names :: "pipeline option \<Rightarrow> exn + string list" where
  "model_feature_names None =
     Inl (AttributeError (apostrophe # ''NoneType'' @ [apostrophe] @ '' object has no attribute ''
            @ [apostrophe] @ ''feature_names_in_'' @ [apostrophe]))"
| "model_feature_names (Some (Constructed nf cf)) =
     Inl (AttributeError (apostrophe # ''ColumnTransformer'' @ [apostrophe]
            @ '' object has no attribute '' @ [apostrophe] @ ''feature_names_in_'' @ [apostrophe]))"
| "model_feature_names (Some (Preprocessor_fitted prep)) = Inr (feature_names_in prep)"
| "model_feature_names (Some (Fitted prep reg)) = Inr (feature_names_in prep)"

text \<open>
  The alignment: the names of the model that are no column of the frame are assigned the
  constant 0, then the frame is indexed by the model's names.
\<close>

definition missing_cols :: "string list \<Rightarrow> dataframe \<Rightarrow> string list" where
  "missing_cols names df = filter (\<lambda>n. n \<notin> set (column_names df)) (remdups names)"

definition zero_column :: "nat \<Rightarrow> string \<Rightarrow> column" where
  "zero_column n col = \<lparr>col_name = col, col_dtype = Int64, col_cells = replicate n (IntV 0)\<rparr>"

definition assign_zero :: "dataframe \<Rightarrow> string \<Rightarrow> dataframe" where
  "assign_zero df col = df\<lparr>columns := columns df @ [zero_column (nrows df) col]\<rparr>"

definition reconcile :: "string list \<Rightarrow> dataframe \<Rightarrow> exn + dataframe" where
  "reconcile names df = getitem_list (foldl assign_zero df (missing_cols names df)) names"

text \<open>
  \<^verbatim>\<open>model.predict\<close>: the first step transforms the frame, the regressor predicts every
  row of the result. \<open>pipeline_transform\<close> is the matrix that reaches the regressor.
  A pipeline whose last step is not fitted refuses to predict.
\<close>

fun pipeline_transform :: "lib \<Rightarrow> pipeline option \<Rightarrow> dataframe \<Rightarrow> exn + real list list" where
  "pipeline_transform L (Some (Fitted prep reg)) df = transform L prep df"
| "pipeline_transform L (Some (Preprocessor_fitted prep)) df = transform L prep df"
| "pipeline_transform L (Some (Constructed nf cf)) df =
     Inl (NotFittedError ''This ColumnTransformer instance is not fitted yet.'')"
| "pipeline_transform L None df =
     Inl (AttributeError (apostrophe # ''NoneType'' @ [apostrophe] @ '' object has no attribute ''
            @ [apostrophe] @ ''predict'' @ [apostrophe]))"

definition not_fitted_message :: string where
  "not_fitted_message =
     ''This Pipeline instance is not fitted yet. Call '' @ [apostrophe] @ ''fit'' @ [apostrophe]
       @ '' with appropriate arguments before using this estimator.''"

definition pipeline_predict :: "lib \<Rightarrow> pipeline option \<Rightarrow> dataframe \<Rightarrow> exn + real list" where
  "pipeline_predict L m df =
     (case m of
        Some (Fitted prep reg) \<Rightarrow>
          and_then (pipeline_transform L m df) (\<lambda>rows. Inr (map reg rows))
      | Some (Preprocessor_fitted prep) \<Rightarrow> Inl (NotFittedError not_fitted_message)
      | Some (Constructed nf cf) \<Rightarrow> Inl (NotFittedError not_fitted_message)
      | None \<Rightarrow>
          Inl (AttributeError (apostrophe # ''NoneType'' @ [apostrophe]
                 @ '' object has no attribute '' @ [apostrophe] @ ''predict'' @ [apostrophe])))"

definition mismatch_message :: "nat \<Rightarrow> nat \<Rightarrow> string" where
  "mismatch_message expected got =
     ''Error: Expected '' @ str_nat expected @ '' features, but got '' @ str_nat got @ ''.''"

text \<open>Lines 272 to 278: the frame that is handed to \<^verbatim>\<open>model.predict\<close>.\<close>

definition aligned_input ::
  "pipeline option \<Rightarrow> cell list \<Rightarrow> string list \<Rightarrow> exn + dataframe" where
  "aligned_input m processed_data selected_features =
     and_then (model_feature_names m) (\<lambda>names.
     reconcile names (get_dummies (single_row processed_data selected_features)))"

definition predict_body :: "lib \<Rightarrow> state \<Rightarrow> string \<Rightarrow> string list \<Rightarrow> exn + string" where
  "predict_body L st input_values selected_features =
     (let processed_data = map (parse_token L) (split_comma input_values) in
      if length processed_data \<noteq> length selected_features
      then Inr (mismatch_message (length selected_features) (length processed_data))
      else and_then (aligned_input (model st) processed_data selected_features) (\<lambda>input_df.
           and_then (pipeline_predict L (model st) input_df) (\<lambda>prediction.
           case prediction of
             [] \<Rightarrow> Inl (IndexError ''index 0 is out of bounds for axis 0 with size 0'')
           | p # ps \<Rightarrow> Inr (''Prediction: '' @ str_float L p))))"

definition prompt_message :: string where
  "prompt_message = ''Please enter feature values and select features before predicting.''"

definition make_prediction ::
  "lib \<Rightarrow> state \<Rightarrow> nat option \<Rightarrow> string option \<Rightarrow> string list option \<Rightarrow> string" where
  "make_prediction L st n_clicks input_values selected_features =
     (case (n_clicks, input_values, selected_features) of
        (Some k, Some iv, Some feats) \<Rightarrow>
          if iv = [] \<or> feats = [] then prompt_message
          else (case predict_body L st iv feats of
                  Inr message \<Rightarrow> message
                | Inl e \<Rightarrow> ''Error: '' @ str_exn e)
      | _ \<Rightarrow> prompt_message)"

section \<open>A small instance of the library and sample data\<close>

text \<open>
  An instance of the library routines on which the callbacks can be run: a split that,
  seeded, answers for a table of four rows as the library's split does for the seed 42
  (test row 1, training rows 3, 0, 2) and, unseeded, holds out a row chosen by the
  ambient random state; a regressor fit that refuses missing labels and a feature matrix
  without columns; and parsers for the sample inputs below. The general statements of the last
  section hold for every instance; this one supplies concrete runs.
\<close>

definition is_digit :: "char \<Rightarrow> bool" where
  "is_digit c = ((48::nat) \<le> of_char c \<and> of_char c \<le> (57::nat))"

definition digits_value :: "string \<Rightarrow> nat" where
  "digits_value s = foldl (\<lambda>acc c. 10 * acc + (of_char c - 48)) (0::nat) s"

definition toy_float :: "string \<Rightarrow> real option" where
  "toy_float s = (if s \<noteq> [] \<and> list_all is_digit s then Some (real (digits_value s)) else None)"

definition toy_split :: "real \<Rightarrow> nat option \<Rightarrow> nat \<Rightarrow> nat \<Rightarrow> exn + (nat list \<times> nat list)" where
  "toy_split test_size seed rng n =
     (if n < 2 then Inl (ValueError ''the resulting train set will be empty'')
      else case seed of
             Some s \<Rightarrow> Inr (if n = 4 then ([3, 0, 2], [1]) else ([1..<n], [0]))
           | None \<Rightarrow> Inr (filter (\<lambda>i. i \<noteq> rng mod n) [0..<n], [rng mod n]))"

fun cell_value :: "cell \<Rightarrow> real" where
  "cell_value (FloatV r) = r"
| "cell_value (IntV i) = real_of_int i"
| "cell_value (BoolV b) = (if b then 1 else 0)"
| "cell_value (StrV s) = 0"
| "cell_value NaN = 0"

definition toy_fit :: "hyperparameters \<Rightarrow> nat \<Rightarrow> real list list \<Rightarrow> cell list \<Rightarrow> exn + regressor" where
  "toy_fit h rng X y =
     (if NaN \<in> set y then Inl (LibraryError ''Label contains NaN, infinity or a value too large'')
      else if [] \<in> set X then Inl (LibraryError ''0 feature is supplied'')
      else case random_state h of
             Some s \<Rightarrow> Inr sum_list
           | None \<Rightarrow> Inr (\<lambda>row. real rng))"

definition toy_r2 :: "cell list \<Rightarrow> real list \<Rightarrow> exn + real" where
  "toy_r2 y_true y_pred =
     (if NaN \<in> set y_true then Inl (ValueError ''Input contains NaN.'')
      else Inr (if map cell_value y_true = y_pred then 1 else 0))"

definition toy_str :: "real \<Rightarrow> string" where
  "toy_str r = str_nat (nat \<lfloor>r\<rfloor>)"

definition sample :: dataframe where
  "sample =
     \<lparr>nrows = 4,
      columns =
        [\<lparr>col_name = ''size'', col_dtype = Float64,
          col_cells = [FloatV 10, FloatV 20, FloatV 30, FloatV 40]\<rparr>,
         \<lparr>col_name = ''color'', col_dtype = Object,
          col_cells = [StrV ''red'', StrV ''blue'', StrV ''red'', StrV ''blue'']\<rparr>,
         \<lparr>col_name = ''boxed'', col_dtype = Bool,
          col_cells = [BoolV True, BoolV False, BoolV True, BoolV True]\<rparr>,
         \<lparr>col_name = ''price'', col_dtype = Float64,
          col_cells = [FloatV 1, FloatV 2, FloatV 3, FloatV 4]\<rparr>]\<rparr>"

text \<open>The same table with the price of one row missing.\<close>

definition sample_gap :: dataframe where
  "sample_gap =
     sample\<lparr>columns :=
       [\<lparr>col_name = ''size'', col_dtype = Float64,
         col_cells = [FloatV 10, FloatV 20, FloatV 30, FloatV 40]\<rparr>,
        \<lparr>col_name = ''price'', col_dtype = Float64,
         col_cells = [FloatV 1, NaN, FloatV 3, FloatV 4]\<rparr>]\<rparr>"

definition toy_csv :: "string \<Rightarrow> exn + dataframe" where
  "toy_csv text =
     (if text = [] then Inl (LibraryError ''No columns to parse from file'')
      else if text = ''sample'' then Inr sample
      else Inr sample_gap)"

definition toy_b64 :: "string \<Rightarrow> exn + string" where
  "toy_b64 s = (if CHR ''!'' \<in> set s then Inl (LibraryError ''Incorrect padding'') else Inr s)"

definition toy_lib :: lib where
  "toy_lib =
     \<lparr>b64decode = toy_b64,
      utf8_decode = Inr,
      read_csv = toy_csv,
      py_float = toy_float,
      train_test_split = toy_split,
      num_fit = (\<lambda>cs. []),
      num_transform = (\<lambda>p c. cell_value c),
      most_frequent = (\<lambda>cs. case cs of [] \<Rightarrow> NaN | c # _ \<Rightarrow> c),
      unique_values = remdups,
      xgb_fit = toy_fit,
      r2_score = toy_r2,
      format_4f = (\<lambda>r. toy_str r @ ''.0000''),
      str_float = toy_str,
      group_mean = (\<lambda>keys vals. Inr []),
      pearson = (\<lambda>xs ys. 0)\<rparr>"

definition empty_state :: state where
  "empty_state = \<lparr>uploaded_data = None, model = None\<rparr>"

definition loaded :: state where
  "loaded = \<lparr>uploaded_data = Some sample, model = None\<rparr>"

text \<open>The state after training on \<open>size\<close> and \<open>color\<close> for the target \<open>price\<close>.\<close>

definition trained :: state where
  "trained = snd (train_model toy_lib 0 loaded (Some 1) (Some ''price'') (Some [''size'', ''color'']))"


section \<open>Reference functions for the statements\<close>

text \<open>
  What the alignment is compared with: the column of a frame under a given name, or a
  column of zeros of the frame's height when the frame has no such column.
\<close>

definition reconciled_column :: "dataframe \<Rightarrow> string \<Rightarrow> column" where
  "reconciled_column df n =
     (case find (\<lambda>c. col_name c = n) (columns df) of
        Some c \<Rightarrow> c
      | None \<Rightarrow> zero_column (nrows df) n)"

text \<open>A frame, and the frames of a prepared training run, without the columns of one name.\<close>

definition drop_column :: "string \<Rightarrow> dataframe \<Rightarrow> dataframe" where
  "drop_column f df = df\<lparr>columns := filter (\<lambda>c. col_name c \<noteq> f) (columns df)\<rparr>"


text \<open>The fitted first step of the global model, when there is one.\<close>

fun fitted_preprocessor :: "pipeline option \<Rightarrow> preprocessor option" where
  "fitted_preprocessor (Some (Fitted prep reg)) = Some prep"
| "fitted_preprocessor (Some (Preprocessor_fitted prep)) = Some prep"
| "fitted_preprocessor (Some (Constructed nf cf)) = None"
| "fitted_preprocessor None = None"

section \<open>Properties\<close>

lemma and_then_Inl [simp]: "and_then (Inl e) f = Inl e"
  by (simp add: and_then_def)

lemma and_then_Inr [simp]: "and_then (Inr x) f = f x"
  by (simp add: and_then_def)

subsection \<open>Ingest\<close>

text \<open>
  What can make \<open>read_upload\<close> fail: the unpacking of the split contents, the base64
  decoding, the UTF-8 decoding or the CSV parser, in this order.
\<close>

lemma read_upload_stages:
  assumes "split_comma c = [content_type, content_string]"
  shows "read_upload L c =
           and_then (b64decode L content_string) (\<lambda>decoded.
           and_then (utf8_decode L decoded) (read_csv L))"
  using assms by (simp add: read_upload_def)

text \<open>
  Claim C8. For a non-empty upload, when decoding or parsing fails with an exception
  \<open>e\<close>, \<open>handle_upload\<close> returns the text \<^verbatim>\<open>Error reading file: \<close> followed by
  \<^verbatim>\<open>str(e)\<close> and the state is the one before the call; when they succeed with a
  frame, the state after the call is the old one with \<open>uploaded_data\<close> replaced by
  that frame.
\<close>

theorem ingest_replace_or_keep:
  assumes "c \<noteq> []"
  shows "(\<forall>e. read_upload L c = Inl e \<longrightarrow>
            handle_upload L st (Some c) filename = (''Error reading file: '' @ str_exn e, st))
       \<and> (\<forall>df. read_upload L c = Inr df \<longrightarrow>
            snd (handle_upload L st (Some c) filename) = st\<lparr>uploaded_data := Some df\<rparr>)"
  using assms by (simp add: handle_upload_def)

theorem ingest_replace_or_keep_witness:
  "handle_upload toy_lib loaded (Some ''data:text/csv;base64,sam!ple'') (Some ''a.csv'')
     = (''Error reading file: Incorrect padding'', loaded)
   \<and> snd (handle_upload toy_lib loaded (Some ''data:text/csv;base64,gap'') (Some ''a.csv''))
     = loaded\<lparr>uploaded_data := Some sample_gap\<rparr>"
proof -
  have bad: "read_upload toy_lib ''data:text/csv;base64,sam!ple''
               = Inl (LibraryError ''Incorrect padding'')"
    by (simp add: read_upload_def toy_lib_def toy_b64_def)
  have good: "read_upload toy_lib ''data:text/csv;base64,gap'' = Inr sample_gap"
    by (simp add: read_upload_def toy_lib_def toy_b64_def toy_csv_def)
  have ne1: "''data:text/csv;base64,sam!ple'' \<noteq> []"
    and ne2: "''data:text/csv;base64,gap'' \<noteq> []"
    by simp_all
  from ingest_replace_or_keep [OF ne1, of toy_lib loaded "Some ''a.csv''"] bad
       ingest_replace_or_keep [OF ne2, of toy_lib loaded "Some ''a.csv''"] good
  show ?thesis by simp
qed

subsection \<open>Preconditions of training\<close>

text \<open>
  Claim C6. After a click, a missing dataset, an unset (or empty) target and an empty
  feature selection are answered, in this order of precedence, by three different
  messages; the state is returned as it was, and neither the answer nor the state depends
  on the library routines, so nothing is fitted.
\<close>

theorem train_preconditions:
  assumes "n_clicks \<noteq> None"
  shows "(uploaded_data st = None \<longrightarrow>
            train_model L rng st n_clicks target selected_features = (no_data_message, st))
       \<and> (uploaded_data st \<noteq> None \<and> \<not> truthy target \<longrightarrow>
            train_model L rng st n_clicks target selected_features = (no_target_message, st))
       \<and> (uploaded_data st \<noteq> None \<and> truthy target \<and> \<not> truthy selected_features \<longrightarrow>
            train_model L rng st n_clicks target selected_features = (no_features_message, st))
       \<and> distinct [no_data_message, no_target_message, no_features_message]"
  using assms
  by (cases target; cases selected_features)
     (auto simp: train_model_def no_data_message_def no_target_message_def no_features_message_def
           split: option.splits)

theorem train_preconditions_witness:
  "train_model toy_lib 0 empty_state (Some 1) (Some ''price'') (Some [''size''])
     = (no_data_message, empty_state)
   \<and> train_model toy_lib 0 loaded (Some 1) (Some []) (Some [''size''])
     = (no_target_message, loaded)
   \<and> train_model toy_lib 0 loaded (Some 1) (Some ''price'') (Some [])
     = (no_features_message, loaded)"
proof -
  have h: "Some (1::nat) \<noteq> None" by simp
  show ?thesis
    using train_preconditions [OF h, of empty_state toy_lib 0 "Some ''price''" "Some [''size'']"]
          train_preconditions [OF h, of loaded toy_lib 0 "Some []" "Some [''size'']"]
          train_preconditions [OF h, of loaded toy_lib 0 "Some ''price''" "Some []"]
    by (simp add: empty_state_def loaded_def)
qed

subsection \<open>Token count against feature count\<close>

lemma length_split_comma:
  "length (split_comma s) = Suc (length (filter (\<lambda>c. c = CHR '','') s))"
  by (induction s) (auto split: list.splits)

text \<open>
  Claim C5. After a click, with a non-empty text and a non-empty feature selection, when
  the number of comma-separated tokens differs from the number of selected features the
  answer is the message \<^verbatim>\<open>Error: Expected n features, but got m.\<close> with both counts in
  decimal. The answer is the same for every state and every library, so the model is not
  consulted.
\<close>

theorem predict_mismatch:
  assumes "input_values \<noteq> []" and "selected_features \<noteq> []"
      and "length (split_comma input_values) \<noteq> length selected_features"
  shows "make_prediction L st (Some k) (Some input_values) (Some selected_features)
           = ''Error: Expected '' @ str_nat (length selected_features) @ '' features, but got ''
               @ str_nat (length (split_comma input_values)) @ ''.''"
  using assms by (simp add: make_prediction_def predict_body_def mismatch_message_def)

theorem predict_mismatch_witness:
  "make_prediction toy_lib trained (Some 1) (Some ''1,2'') (Some [''a'', ''b'', ''c''])
     = ''Error: Expected 3 features, but got 2.''"
proof -
  have a: "''1,2'' \<noteq> []" and b: "[''a'', ''b'', ''c''] \<noteq> []"
    and c: "length (split_comma ''1,2'') \<noteq> length [''a'', ''b'', ''c'']"
    by simp_all
  have d: "str_nat (length [''a'', ''b'', ''c'']) = ''3''"
          "str_nat (length (split_comma ''1,2'')) = ''2''"
    by code_simp+
  show ?thesis
    using predict_mismatch [OF a b c, of toy_lib trained 1] d by simp
qed

subsection \<open>The selection surfaces\<close>

lemma surfaces_unloaded:
  "uploaded_data st = None \<Longrightarrow> get_options st = [] \<and> update_target_dropdown st = []"
  by (simp add: get_options_def update_target_dropdown_def)

lemma target_dropdown_numeric:
  "uploaded_data st = Some df \<Longrightarrow>
     map fst (update_target_dropdown st)
       = map col_name (filter (\<lambda>c. col_dtype c = Int64 \<or> col_dtype c = Float64) (columns df))"
  by (simp add: update_target_dropdown_def select_dtypes_def column_names_def included_def
        option_of_def comp_def)

lemma get_options_names:
  "uploaded_data st = Some df \<Longrightarrow>
     map fst (get_options st)
       = map col_name (filter (\<lambda>c. col_dtype c = Int64 \<or> col_dtype c = Float64) (columns df))
         @ map col_name (filter (\<lambda>c. col_dtype c = Object \<or> col_dtype c = Category) (columns df))"
  by (simp add: get_options_def select_dtypes_def column_names_def included_def
        option_of_def comp_def)

text \<open>
  Claim C9. The comment above \<^verbatim>\<open>get_options\<close> asks for the checkboxes of all the
  columns. On the sample table, whose columns are \<open>size\<close>, \<open>color\<close>, \<open>boxed\<close> and
  \<open>price\<close>, the options are \<open>size\<close>, \<open>price\<close> and \<open>color\<close>: the boolean column
  \<open>boxed\<close> is not offered. (The target list is the numeric columns, and both lists are
  empty without a dataset: the three lemmas above.)
\<close>

theorem get_options_omits_boolean_column:
  "column_names sample = [''size'', ''color'', ''boxed'', ''price'']
   \<and> map fst (get_options loaded) = [''size'', ''price'', ''color'']
   \<and> ''boxed'' \<notin> set (map fst (get_options loaded))"
  by (simp add: get_options_def loaded_def sample_def select_dtypes_def column_names_def
        included_def option_of_def)

subsection \<open>The report\<close>

lemma report_unset:
  "uploaded_data st = None \<or> target = None \<Longrightarrow>
     update_barcharts L st target categorical_var = Inr ([], Empty_figure, Empty_figure)"
  by (auto simp: update_barcharts_def split: option.splits)

text \<open>
  Claim C4. \<^verbatim>\<open>update_barcharts\<close> has no handler. With the sample table loaded, a target
  that is no column of it (a selection left over from an earlier upload), or a
  categorical column that is none, makes the callback end in a \<^verbatim>\<open>KeyError\<close>, whatever
  the library computes.
\<close>

theorem report_lets_KeyError_out:
  "update_barcharts L loaded (Some ''cost'') None = Inl (KeyError ''cost'')
   \<and> update_barcharts L loaded (Some ''price'') (Some ''shade'') = Inl (KeyError ''shade'')"
  by (simp add: update_barcharts_def loaded_def sample_def select_dtypes_def included_def
        empty_frame_def correlation_chart_def category_chart_def getitem_def)

subsection \<open>Failures during training\<close>





subsection \<open>Repeated training\<close>

lemma prepare_rng:
  assumes "\<And>ts s n. train_test_split L ts (Some s) r1 n = train_test_split L ts (Some s) r2 n"
  shows "prepare L r1 data tgt feats = prepare L r2 data tgt feats"
  using assms by (simp add: prepare_def)

lemma fit_and_score_rng:
  assumes "\<And>h X y. random_state h \<noteq> None \<Longrightarrow> xgb_fit L h r1 X y = xgb_fit L h r2 X y"
  shows "fst (fit_and_score L r1 p st1) = fst (fit_and_score L r2 p st2)"
proof -
  have "xgb_fit L hyper r1 X y = xgb_fit L hyper r2 X y" for X y
    using assms by (simp add: hyper_def)
  then show ?thesis
    by (simp add: fit_and_score_def Let_def split: sum.splits)
qed

text \<open>
  Claim C7. Let the library keep its contract that a seeded split and a seeded regressor
  fit do not depend on the ambient random state. Then two train calls on the same
  dataset with the same target and features return the same text, and the same score or
  exception, whatever the ambient random states \<open>r1\<close> and \<open>r2\<close>, the click counts and
  the previously installed models are: \<^verbatim>\<open>train_model\<close> passes the seed 42 to the split
  and to the regressor, the test size 0.2 and the hyperparameters of \<open>hyper\<close>, and reads
  nothing else.
\<close>

theorem train_score_deterministic:
  assumes split: "\<And>ts s n. train_test_split L ts (Some s) r1 n
                              = train_test_split L ts (Some s) r2 n"
      and fit: "\<And>h X y. random_state h \<noteq> None \<Longrightarrow> xgb_fit L h r1 X y = xgb_fit L h r2 X y"
      and data: "uploaded_data st1 = uploaded_data st2"
  shows "fst (train_model L r1 st1 (Some k1) target selected_features)
           = fst (train_model L r2 st2 (Some k2) target selected_features)
       \<and> (\<forall>d tgt feats. fst (train_body L r1 st1 d tgt feats)
                          = fst (train_body L r2 st2 d tgt feats))"
proof -
  have body: "fst (train_body L r1 st1 d tgt feats) = fst (train_body L r2 st2 d tgt feats)"
    for d tgt feats
    using prepare_rng [OF split, of d tgt feats] fit_and_score_rng [OF fit]
    by (simp add: train_body_def split: sum.splits)
  have "fst (train_model L r1 st1 (Some k1) target selected_features)
           = fst (train_model L r2 st2 (Some k2) target selected_features)"
  proof (cases "uploaded_data st2")
    case None
    with data show ?thesis by (simp add: train_model_def)
  next
    case (Some d)
    show ?thesis
    proof (cases "truthy target \<and> truthy selected_features")
      case False
      with Some data show ?thesis
        by (cases target; cases selected_features) (auto simp: train_model_def)
    next
      case True
      then obtain tgt feats where tf: "target = Some tgt" "selected_features = Some feats"
          "tgt \<noteq> []" "feats \<noteq> []"
        by (cases target; cases selected_features) auto
      obtain a sa where A: "train_body L r1 st1 d tgt feats = (a, sa)"
        by (cases "train_body L r1 st1 d tgt feats")
      obtain b sb where B: "train_body L r2 st2 d tgt feats = (b, sb)"
        by (cases "train_body L r2 st2 d tgt feats")
      from body [of d tgt feats] A B have "a = b" by simp
      with A B Some data tf show ?thesis
        by (simp add: train_model_def split: sum.splits)
    qed
  qed
  with body show ?thesis by blast
qed

lemma trained_message:
  "fst (train_model toy_lib 0 loaded (Some 1) (Some ''price'') (Some [''size'', ''color'']))
     = ''Model trained successfully! R^2 score: 0.0000''"
  by code_simp

theorem train_score_deterministic_witness:
  "fst (train_model toy_lib 5 (loaded\<lparr>model := Some (Constructed [] [])\<rparr>) (Some 9)
              (Some ''price'') (Some [''size'', ''color'']))
     = ''Model trained successfully! R^2 score: 0.0000''"
proof -
  have split: "\<And>ts s n. train_test_split toy_lib ts (Some s) 0 n
                          = train_test_split toy_lib ts (Some s) 5 n"
    by (simp add: toy_lib_def toy_split_def)
  have fit: "\<And>h X y. random_state h \<noteq> None
               \<Longrightarrow> xgb_fit toy_lib h 0 X y = xgb_fit toy_lib h 5 X y"
    by (auto simp: toy_lib_def toy_fit_def split: option.splits)
  have data: "uploaded_data loaded = uploaded_data (loaded\<lparr>model := Some (Constructed [] [])\<rparr>)"
    by simp
  from train_score_deterministic
         [OF split fit data, of 1 "Some ''price''" "Some [''size'', ''color'']" 9]
       trained_message
  show ?thesis by simp
qed

subsection \<open>Columns of other dtypes\<close>





lemma nrows_drop [simp]: "nrows (drop_column f X) = nrows X"
  by (simp add: drop_column_def)












lemma fit_transform_features:
  assumes "fit_transform L p = Inr (prep, Xt)"
  shows "numeric_features prep = numeric p" and "categorical_features prep = categorical p"
    and "feature_names_in prep = column_names (X_train p)"
  using assms
  by (auto simp: fit_transform_def fit_preprocessor_def and_then_def split: sum.splits)











subsection \<open>The names a fitted model hands out\<close>

lemma filter_name_distinct:
  assumes "distinct (map col_name cs)"
  shows "filter (\<lambda>c. col_name c = n) cs
           = (case find (\<lambda>c. col_name c = n) cs of Some c \<Rightarrow> [c] | None \<Rightarrow> [])"
  using assms
proof (induction cs)
  case Nil
  show ?case by simp
next
  case (Cons c cs)
  then have IH: "filter (\<lambda>c. col_name c = n) cs
           = (case find (\<lambda>c. col_name c = n) cs of Some c \<Rightarrow> [c] | None \<Rightarrow> [])"
    by simp
  show ?case
  proof (cases "col_name c = n")
    case True
    with Cons.prems have "n \<notin> col_name ` set cs" by auto
    then have "filter (\<lambda>c. col_name c = n) cs = []"
      by (auto simp: filter_empty_conv)
    with True show ?thesis by simp
  next
    case False
    with IH show ?thesis by simp
  qed
qed

lemma find_name_None: "find (\<lambda>c. col_name c = n) cs = None \<longleftrightarrow> n \<notin> set (map col_name cs)"
  by (induction cs) auto

lemma find_name_Some:
  "find (\<lambda>c. col_name c = n) cs = Some c \<Longrightarrow> col_name c = n \<and> c \<in> set cs"
  by (induction cs) (auto split: if_splits)

lemma find_None_iff_all: "find P xs = None \<longleftrightarrow> list_all (\<lambda>x. \<not> P x) xs"
  by (induction xs) auto

lemma names_concat_filter:
  assumes "distinct (map col_name cs)" and "set names \<subseteq> set (map col_name cs)"
  shows "map col_name (concat (map (\<lambda>n. filter (\<lambda>c. col_name c = n) cs) names)) = names"
  using assms(2)
proof (induction names)
  case Nil
  show ?case by simp
next
  case (Cons n names)
  then obtain c where c: "find (\<lambda>c. col_name c = n) cs = Some c"
    using find_name_None [of n cs] by (cases "find (\<lambda>c. col_name c = n) cs") auto
  then have "filter (\<lambda>c. col_name c = n) cs = [c]" and "col_name c = n"
    using filter_name_distinct [OF assms(1), of n] find_name_Some [OF c] by simp_all
  with Cons show ?case by simp
qed

lemma getitem_list_names:
  assumes "getitem_list data feats = Inr X" and "distinct (column_names data)"
  shows "column_names X = feats"
proof -
  from assms(1) have none: "find (\<lambda>n. n \<notin> set (column_names data)) feats = None"
    and X: "X = data\<lparr>columns :=
                  concat (map (\<lambda>n. filter (\<lambda>c. col_name c = n) (columns data)) feats)\<rparr>"
    by (auto simp: getitem_list_def split: option.splits)
  from none have "set feats \<subseteq> set (map col_name (columns data))"
    by (auto simp: find_None_iff_all list_all_iff column_names_def)
  with assms(2) show ?thesis
    by (simp add: X column_names_def names_concat_filter)
qed

lemma column_names_take_rows [simp]: "column_names (take_rows idx X) = column_names X"
  by (simp add: take_rows_def column_names_def comp_def)

lemma fit_preprocessor_names:
  "fit_preprocessor L nf cf X = Inr prep \<Longrightarrow> feature_names_in prep = column_names X"
  by (auto simp: fit_preprocessor_def and_then_def split: sum.splits)

lemma fit_and_score_names:
  assumes "fit_and_score L rng p st = (Inr r2, st')"
  shows "model_feature_names (model st') = Inr (column_names (X_train p))"
proof (cases "fit_transform L p")
  case (Inl e)
  with assms show ?thesis
    by (simp add: fit_and_score_def)
next
  case (Inr r)
  obtain prep Xt where r: "r = (prep, Xt)" by (cases r)
  from Inr r have ft: "fit_transform L p = Inr (prep, Xt)" by simp
  from assms fit_transform_features(3) [OF ft] show ?thesis
    by (auto simp: fit_and_score_def ft Let_def split: sum.splits)
qed

text \<open>
  After a successful training on a table with distinct column names, for every library,
  \<^verbatim>\<open>model.feature_names_in_\<close> is the feature selection itself.
\<close>

lemma trained_model_names:
  assumes "train_body L rng st data tgt feats = (Inr r2, st')" and "distinct (column_names data)"
  shows "model_feature_names (model st') = Inr feats"
proof -
  from assms(1) obtain p where p: "prepare L rng data tgt feats = Inr p"
    and fs: "fit_and_score L rng p st = (Inr r2, st')"
    by (auto simp: train_body_def split: sum.splits)
  from p obtain X train where X: "getitem_list data feats = Inr X"
    and Xt: "X_train p = take_rows train X"
    by (auto simp: prepare_def and_then_def split: sum.splits prod.splits)
  from fit_and_score_names [OF fs] Xt getitem_list_names [OF X assms(2)]
  show ?thesis by simp
qed

subsection \<open>The alignment of the expanded row\<close>

lemma foldl_assign_zero:
  "foldl assign_zero df ms = df\<lparr>columns := columns df @ map (zero_column (nrows df)) ms\<rparr>"
proof (induction ms arbitrary: df)
  case Nil
  show ?case by simp
next
  case (Cons m ms)
  show ?case by (simp add: Cons.IH) (simp add: assign_zero_def)
qed

lemma concat_map_single:
  "(\<And>n. n \<in> set names \<Longrightarrow> g n = [h n]) \<Longrightarrow> concat (map g names) = map h names"
  by (induction names) auto

lemma zero_column_name [simp]: "col_name (zero_column k n) = n"
  by (simp add: zero_column_def)

lemma filter_zero_columns:
  "filter (\<lambda>c. col_name c = n) (map (zero_column k) ms)
     = map (zero_column k) (filter (\<lambda>m. m = n) ms)"
  by (induction ms) auto

lemma filter_eq_remdups:
  "filter (\<lambda>m. m = n) (remdups ms) = (if n \<in> set ms then [n] else [])"
  by (induction ms) (auto simp: filter_empty_conv)

lemma filter_missing:
  "filter (\<lambda>m. m = n) (missing_cols names df)
     = (if n \<in> set names \<and> n \<notin> set (column_names df) then [n] else [])"
proof -
  have "filter (\<lambda>m. m = n) (missing_cols names df)
          = filter (\<lambda>m. m \<notin> set (column_names df)) (filter (\<lambda>m. m = n) (remdups names))"
    by (simp add: missing_cols_def conj_commute)
  then show ?thesis by (simp add: filter_eq_remdups)
qed

text \<open>
  On a frame with distinct column names the alignment never raises, and its result has
  one column per name of the model, in the model's order: the frame's column of that
  name, or zeros.
\<close>

lemma reconcile_spec:
  assumes "distinct (column_names df)"
  shows "reconcile names df = Inr (df\<lparr>columns := map (reconciled_column df) names\<rparr>)"
proof -
  let ?df' = "foldl assign_zero df (missing_cols names df)"
  have cols: "columns ?df' = columns df @ map (zero_column (nrows df)) (missing_cols names df)"
    by (simp add: foldl_assign_zero)
  have names': "set (column_names ?df') = set (column_names df) \<union> set (missing_cols names df)"
    by (simp add: column_names_def cols comp_def image_Un)
  have "list_all (\<lambda>n. \<not> n \<notin> set (column_names ?df')) names"
    unfolding names' by (auto simp: list_all_iff missing_cols_def)
  then have none: "find (\<lambda>n. n \<notin> set (column_names ?df')) names = None"
    by (simp add: find_None_iff_all)
  have each: "filter (\<lambda>c. col_name c = n) (columns ?df') = [reconciled_column df n]"
    if "n \<in> set names" for n
  proof (cases "find (\<lambda>c. col_name c = n) (columns df)")
    case None
    then have "n \<notin> set (column_names df)"
      by (simp add: find_name_None column_names_def)
    moreover from this have "filter (\<lambda>c. col_name c = n) (columns df) = []"
      by (auto simp: filter_empty_conv column_names_def)
    ultimately show ?thesis
      using that None
      by (simp add: cols filter_zero_columns filter_missing reconciled_column_def)
  next
    case (Some c)
    then have "n \<in> set (column_names df)"
      using find_name_Some [OF Some] by (auto simp: column_names_def)
    moreover have "filter (\<lambda>c. col_name c = n) (columns df) = [c]"
      using filter_name_distinct [of "columns df" n] assms Some
      by (simp add: column_names_def)
    ultimately show ?thesis
      using Some by (simp add: cols filter_zero_columns filter_missing reconciled_column_def)
  qed
  have "concat (map (\<lambda>n. filter (\<lambda>c. col_name c = n) (columns ?df')) names)
          = map (reconciled_column df) names"
    by (rule concat_map_single) (rule each)
  then have "reconcile names df = Inr (?df'\<lparr>columns := map (reconciled_column df) names\<rparr>)"
    unfolding reconcile_def getitem_list_def by (simp only: none option.case)
  also have "?df'\<lparr>columns := map (reconciled_column df) names\<rparr>
               = df\<lparr>columns := map (reconciled_column df) names\<rparr>"
    by (simp add: foldl_assign_zero)
  finally show ?thesis .
qed

lemma reconciled_column_name [simp]: "col_name (reconciled_column df n) = n"
  by (auto simp: reconciled_column_def split: option.splits dest: find_name_Some)

lemma find_map_named:
  assumes "\<And>k. col_name (g k) = k"
  shows "find (\<lambda>c. col_name c = n) (map g names) = (if n \<in> set names then Some (g n) else None)"
  using assms by (induction names) auto

lemma nrows_get_dummies [simp]: "nrows (get_dummies df) = nrows df"
  by (simp add: get_dummies_def)

lemma nrows_single_row [simp]: "nrows (single_row cells feats) = 1"
  by (simp add: single_row_def)

lemma aligned_lookup:
  assumes names: "model_feature_names m = Inr names"
      and expanded: "expanded = get_dummies (single_row cells feats)"
      and dist: "distinct (column_names expanded)"
  shows "\<exists>df. aligned_input m cells feats = Inr df
            \<and> column_names df = names
            \<and> (\<forall>n\<in>set names.
                  lookup_cells df n =
                    (if n \<in> set (column_names expanded) then lookup_cells expanded n
                     else Inr [IntV 0]))"
proof -
  let ?df = "expanded\<lparr>columns := map (reconciled_column expanded) names\<rparr>"
  have aligned: "aligned_input m cells feats = Inr ?df"
    using names expanded reconcile_spec [OF dist, of names]
    by (simp add: aligned_input_def)
  have cn: "column_names ?df = names"
    by (simp add: column_names_def comp_def)
  have one: "nrows expanded = 1"
    by (simp add: expanded)
  have look: "lookup_cells ?df n =
                (if n \<in> set (column_names expanded) then lookup_cells expanded n
                 else Inr [IntV 0])" if "n \<in> set names" for n
  proof -
    have "find (\<lambda>c. col_name c = n) (columns ?df) = Some (reconciled_column expanded n)"
      using that find_map_named [of "reconciled_column expanded" n names] by simp
    then have l: "lookup_cells ?df n = Inr (col_cells (reconciled_column expanded n))"
      by (simp add: lookup_cells_def)
    show ?thesis
    proof (cases "find (\<lambda>c. col_name c = n) (columns expanded)")
      case None
      then have "n \<notin> set (column_names expanded)"
        by (simp add: find_name_None column_names_def)
      with None l one show ?thesis
        by (simp add: reconciled_column_def zero_column_def)
    next
      case (Some c)
      then have "n \<in> set (column_names expanded)"
        using find_name_Some [OF Some] by (auto simp: column_names_def)
      with Some l show ?thesis
        by (simp add: reconciled_column_def lookup_cells_def)
    qed
  qed
  from aligned cn look show ?thesis by blast
qed

text \<open>
  Claim C2. After training on \<open>size\<close> and \<open>color\<close>, the list against which
  \<^verbatim>\<open>make_prediction\<close> aligns the expanded row is the feature selection itself, two
  names, while the fitted preprocessing step has three output columns, one for \<open>size\<close>
  and one for each color; the aligned frame of a predict call has the two columns of
  the selection, not the three of the encoding.
\<close>

theorem reconciliation_list_is_not_output_columns:
  "model_feature_names (model trained) = Inr [''size'', ''color'']
   \<and> map_option output_columns (fitted_preprocessor (model trained))
       = Some [(''size'', None), (''color'', Some (StrV ''blue'')),
               (''color'', Some (StrV ''red''))]
   \<and> and_then (aligned_input (model trained) [FloatV 10, StrV ''red''] [''size'', ''color''])
         (\<lambda>df. Inr (column_names df)) = Inr [''size'', ''color'']"
  by code_simp

subsection \<open>What reaches the regressor\<close>

text \<open>The encoder: an unknown value sets no indicator, a fitted category sets one.\<close>

lemma onehot_unknown: "v \<notin> set cats \<Longrightarrow> onehot cats v = replicate (length cats) 0"
  by (induction cats) (auto simp: onehot_def)

lemma onehot_known: "v \<in> set cats \<Longrightarrow> 1 \<in> set (onehot cats v)"
  by (auto simp: onehot_def)

lemma dummy_columns_single:
  "dummy_columns \<lparr>col_name = n, col_dtype = d, col_cells = [StrV s]\<rparr>
     = [\<lparr>col_name = n @ ''_'' @ s, col_dtype = Bool, col_cells = [BoolV True]\<rparr>]"
  by (simp add: dummy_columns_def labels_def)

lemma column_names_expanded:
  "column_names (get_dummies (single_row cells feats))
           = map fst (filter (\<lambda>(n, v). cell_dtype v \<noteq> Object) (zip feats cells))
             @ concat (map (\<lambda>(n, v). case v of StrV s \<Rightarrow> [n @ ''_'' @ s] | _ \<Rightarrow> [])
                         (zip feats cells))"
proof -
  have a: "map col_name (filter (\<lambda>c. \<not> encoded c)
              (map (\<lambda>(n, v). \<lparr>col_name = n, col_dtype = cell_dtype v, col_cells = [v]\<rparr>) zs))
           = map fst (filter (\<lambda>(n, v). cell_dtype v \<noteq> Object) zs)" for zs
  proof (induction zs)
    case Nil
    show ?case by simp
  next
    case (Cons z zs)
    obtain n v where z: "z = (n, v)" by (cases z)
    show ?case using Cons by (cases v) (simp_all add: z encoded_def)
  qed
  have b: "map col_name (concat (map dummy_columns (filter encoded
              (map (\<lambda>(n, v). \<lparr>col_name = n, col_dtype = cell_dtype v, col_cells = [v]\<rparr>) zs))))
           = concat (map (\<lambda>(n, v). case v of StrV s \<Rightarrow> [n @ ''_'' @ s] | _ \<Rightarrow> []) zs)" for zs
  proof (induction zs)
    case Nil
    show ?case by simp
  next
    case (Cons z zs)
    obtain n v where z: "z = (n, v)" by (cases z)
    show ?case using Cons by (cases v) (simp_all add: z encoded_def dummy_columns_single)
  qed
  show ?thesis
    by (simp add: column_names_def get_dummies_def single_row_def a b)
qed

lemma zip_distinct_unique:
  assumes "distinct xs" and "(x, y) \<in> set (zip xs ys)" and "(x, y') \<in> set (zip xs ys)"
  shows "y = y'"
proof -
  from assms(2) obtain i where i: "i < length xs" "i < length ys" "xs ! i = x" "ys ! i = y"
    by (auto simp: set_zip)
  from assms(3) obtain j where j: "j < length xs" "j < length ys" "xs ! j = x" "ys ! j = y'"
    by (auto simp: set_zip)
  from i j have "xs ! i = xs ! j" by simp
  with assms(1) i(1) j(1) have "i = j" by (simp add: nth_eq_iff_index_eq)
  with i j show ?thesis by simp
qed

text \<open>
  For every fitted model and every library: a feature whose token is text, and whose
  name is not by accident the dummy name of a token, reaches the pipeline as the integer
  0, whatever the text was.
\<close>

lemma text_feature_is_zeroed:
  assumes names: "model_feature_names m = Inr names" and n: "n \<in> set names"
      and dfeats: "distinct feats"
      and tok: "(n, StrV s) \<in> set (zip feats cells)"
      and nodummy: "n \<notin> set (concat (map (\<lambda>(f, v). case v of StrV t \<Rightarrow> [f @ ''_'' @ t] | _ \<Rightarrow> [])
                                      (zip feats cells)))"
      and dist: "distinct (column_names (get_dummies (single_row cells feats)))"
  shows "\<exists>df. aligned_input m cells feats = Inr df \<and> lookup_cells df n = Inr [IntV 0]"
proof -
  have "n \<notin> set (map fst (filter (\<lambda>(n, v). cell_dtype v \<noteq> Object) (zip feats cells)))"
  proof
    assume "n \<in> set (map fst (filter (\<lambda>(n, v). cell_dtype v \<noteq> Object) (zip feats cells)))"
    then obtain v where v: "(n, v) \<in> set (zip feats cells)" "cell_dtype v \<noteq> Object"
      by auto
    from zip_distinct_unique [OF dfeats tok v(1)] v(2) show False by auto
  qed
  with nodummy have "n \<notin> set (column_names (get_dummies (single_row cells feats)))"
    by (simp add: column_names_expanded)
  with aligned_lookup [OF names refl dist] n show ?thesis by auto
qed

text \<open>
  Claim C1. The fitted model has seen the color \<open>red\<close>: applied to the row (10, red)
  itself, its first step yields 10, 0, 1. \<^verbatim>\<open>make_prediction\<close> on the text \<^verbatim>\<open>10,red\<close>
  hands the regressor 10, 0, 0, the same row as for the unseen color \<open>green\<close>: the
  expanded column \<open>color_red\<close> is no name of the model and is dropped, and the name
  \<open>color\<close> is no expanded column and is set to 0, a value the encoder does not know.
\<close>

theorem seen_category_encoded_as_zero:
  "and_then (aligned_input (model trained) (map (parse_token toy_lib) (split_comma ''10,red''))
               [''size'', ''color''])
            (pipeline_transform toy_lib (model trained)) = Inr [[10, 0, 0]]
   \<and> and_then (aligned_input (model trained) (map (parse_token toy_lib) (split_comma ''10,green''))
               [''size'', ''color''])
            (pipeline_transform toy_lib (model trained)) = Inr [[10, 0, 0]]
   \<and> pipeline_transform toy_lib (model trained)
        (single_row [FloatV 10, StrV ''red''] [''size'', ''color'']) = Inr [[10, 0, 1]]"
  by code_simp

end
